theory Spec2Isabelle
  imports Complex_Main "HOL-Library.Word"
begin

section \<open>JavaScript strings\<close>

text \<open>
  A JavaScript string is a sequence of UTF-16 code units. The literals of
  \<^verbatim>\<open>static/app.js\<close> are written with \<open>js\<close> for their ASCII stretches and
  with the code units themselves elsewhere (the file is UTF-8, every character
  of it lies in the basic plane).
\<close>

type_synonym jschar = "16 word"
type_synonym jsstring = "jschar list"

definition js :: "string \<Rightarrow> jsstring" where
  "js s = map (\<lambda>c. of_nat (of_char c)) s"

definition startsWith :: "jsstring \<Rightarrow> jsstring \<Rightarrow> bool" where
  "startsWith s p = (take (length p) s = p)"

text \<open>
  \<^verbatim>\<open>String.prototype.trim\<close> removes the code units that ECMAScript calls
  WhiteSpace or LineTerminator from both ends.
\<close>

definition is_js_space :: "jschar \<Rightarrow> bool" where
  "is_js_space c =
     (c = 0x0009 \<or> c = 0x000A \<or> c = 0x000B \<or> c = 0x000C \<or> c = 0x000D \<or> c = 0x0020
      \<or> c = 0x00A0 \<or> c = 0x1680 \<or> (0x2000 \<le> c \<and> c \<le> 0x200A)
      \<or> c = 0x2028 \<or> c = 0x2029 \<or> c = 0x202F \<or> c = 0x205F \<or> c = 0x3000
      \<or> c = 0xFEFF)"

definition trim :: "jsstring \<Rightarrow> jsstring" where
  "trim s = rev (dropWhile is_js_space (rev (dropWhile is_js_space s)))"

text \<open>
  \<^verbatim>\<open>s.replace(pat, rep)\<close> with a string pattern replaces the first occurrence
  of \<open>pat\<close> in \<open>s\<close>, wherever it is, and nothing else. (The replacement used
  in the source is the empty string, so no \<^verbatim>\<open>$\<close> pattern arises.)
\<close>

fun replace_first :: "jsstring \<Rightarrow> jsstring \<Rightarrow> jsstring \<Rightarrow> jsstring" where
  "replace_first pat rep [] = (if pat = [] then rep else [])"
| "replace_first pat rep (c # cs) =
     (if startsWith (c # cs) pat then rep @ drop (length pat) (c # cs)
      else c # replace_first pat rep cs)"

section \<open>The regular expressions of formatMessage\<close>

text \<open>
  Without the \<^verbatim>\<open>s\<close> flag the dot of a regular expression matches every
  code unit but the four line terminators.
\<close>

definition is_line_terminator :: "jschar \<Rightarrow> bool" where
  "is_line_terminator c = (c = 0x000A \<or> c = 0x000D \<or> c = 0x2028 \<or> c = 0x2029)"

text \<open>
  \<open>lazy_until d s\<close> matches \<^verbatim>\<open>(.*?)\<close> followed by the literal \<open>d\<close> at the
  start of \<open>s\<close>: the lazy star tries the shortest run first and grows it by one
  unit (never a line terminator) on failure. The result is the captured group
  and what remains of \<open>s\<close> behind the match.
\<close>

fun lazy_until :: "jsstring \<Rightarrow> jsstring \<Rightarrow> (jsstring \<times> jsstring) option" where
  "lazy_until d [] = (if d = [] then Some ([], []) else None)"
| "lazy_until d (c # cs) =
     (if startsWith (c # cs) d then Some ([], drop (length d) (c # cs))
      else if is_line_terminator c then None
      else (case lazy_until d cs of
              None \<Rightarrow> None
            | Some (g, r) \<Rightarrow> Some (c # g, r)))"

text \<open>
  \<open>replace_delimited d opn cls s\<close> is
  \<^verbatim>\<open>s.replace(/D(.*?)D/g, opn + '$1' + cls)\<close> for a literal, non-empty
  delimiter \<open>D\<close>: the matches are found from left to right, each search starts
  where the previous match ended, and the units outside the matches are copied.
\<close>

function replace_delimited :: "jsstring \<Rightarrow> jsstring \<Rightarrow> jsstring \<Rightarrow> jsstring \<Rightarrow> jsstring" where
  "replace_delimited d opn cls [] = []"
| "replace_delimited d opn cls (c # cs) =
     (if d \<noteq> [] \<and> startsWith (c # cs) d then
        (case lazy_until d (drop (length d) (c # cs)) of
           Some (g, r) \<Rightarrow> opn @ g @ cls @ replace_delimited d opn cls r
         | None \<Rightarrow> c # replace_delimited d opn cls cs)
      else c # replace_delimited d opn cls cs)"
  by pat_completeness auto
termination
proof (relation "measure (\<lambda>(d, opn, cls, s). length s)")
  show "wf (measure (\<lambda>(d, opn, cls, s). length s))"
    by simp
next
  fix d opn cls :: jsstring and c :: jschar and cs x2 g r
  assume nonempty: "d \<noteq> [] \<and> startsWith (c # cs) d"
    and found: "lazy_until d (drop (length d) (c # cs)) = Some x2"
    and pair: "(g, r) = x2"
  have shorter: "length r' \<le> length s" if "lazy_until d s = Some (g', r')" for s g' r'
    using that
  proof (induction s arbitrary: g')
    case Nil
    then show ?case by (simp split: if_splits)
  next
    case (Cons a s)
    then show ?case
      by (fastforce split: if_splits option.splits)
  qed
  from found pair have "length r \<le> length (drop (length d) (c # cs))"
    using shorter [of "drop (length d) (c # cs)" g r] by simp
  moreover from nonempty have "length (drop (length d) (c # cs)) < length (c # cs)"
    by (cases d) simp_all
  ultimately have "length r < length (c # cs)"
    by (rule le_less_trans)
  then show "((d, opn, cls, r), (d, opn, cls, c # cs)) \<in> measure (\<lambda>(d, opn, cls, s). length s)"
    by simp
next
  fix d opn cls :: jsstring and c :: jschar and cs
  show "((d, opn, cls, cs), (d, opn, cls, c # cs)) \<in> measure (\<lambda>(d, opn, cls, s). length s)"
    by simp
next
  fix d opn cls :: jsstring and c :: jschar and cs
  show "((d, opn, cls, cs), (d, opn, cls, c # cs)) \<in> measure (\<lambda>(d, opn, cls, s). length s)"
    by simp
qed

text \<open>\<^verbatim>\<open>s.replace(/\n/g, '<br>')\<close>\<close>

definition replace_newlines :: "jsstring \<Rightarrow> jsstring" where
  "replace_newlines s = concat (map (\<lambda>c. if c = 0x000A then js ''<br>'' else [c]) s)"

text \<open>
  \<^verbatim>\<open>
  function formatMessage(content) {
      return content
          .replace(/\*\*(.*?)\*\*/g, '<strong>$1</strong>')
          .replace(/\*(.*?)\*/g, '<em>$1</em>')
          .replace(/\n/g, '<br>');
  }
  \<close>
\<close>

definition replace_bold :: "jsstring \<Rightarrow> jsstring" where
  "replace_bold s = replace_delimited (js ''**'') (js ''<strong>'') (js ''</strong>'') s"

definition replace_italic :: "jsstring \<Rightarrow> jsstring" where
  "replace_italic s = replace_delimited (js ''*'') (js ''<em>'') (js ''</em>'') s"

definition formatMessage :: "jsstring \<Rightarrow> jsstring" where
  "formatMessage content = replace_newlines (replace_italic (replace_bold content))"

section \<open>JSON values\<close>

text \<open>
  What \<^verbatim>\<open>response.json()\<close> can yield: any JSON value. A number is the
  double \<^verbatim>\<open>JSON.parse\<close> produces (a rational, or an infinity for a literal
  that overflows; never NaN). An object is the list of its members as written;
  of members with the same key the last one is the property.
\<close>

datatype jsnumber = Finite rat | PlusInfinity | MinusInfinity

datatype json =
    JNull
  | JBool bool
  | JNum jsnumber
  | JStr jsstring
  | JArr "json list"
  | JObj "(jsstring \<times> json) list"

text \<open>
  \<^verbatim>\<open>data.success\<close>, \<^verbatim>\<open>data.answer\<close> and \<^verbatim>\<open>data.source_urls\<close> for a value
  \<open>data\<close> that is not null (on null the access throws; the caller tests that
  first): the own property of an object, and \<^verbatim>\<open>undefined\<close>, here \<open>None\<close>,
  otherwise, since no prototype defines one of these three names.
\<close>

fun get_field :: "json \<Rightarrow> jsstring \<Rightarrow> json option" where
  "get_field (JObj members) name = map_of (rev members) name"
| "get_field JNull name = None"
| "get_field (JBool b) name = None"
| "get_field (JNum n) name = None"
| "get_field (JStr s) name = None"
| "get_field (JArr xs) name = None"

text \<open>What \<^verbatim>\<open>if (v)\<close> takes for true.\<close>

fun truthy :: "json option \<Rightarrow> bool" where
  "truthy None = False"
| "truthy (Some JNull) = False"
| "truthy (Some (JBool b)) = b"
| "truthy (Some (JNum n)) = (n \<noteq> Finite 0)"
| "truthy (Some (JStr s)) = (s \<noteq> [])"
| "truthy (Some (JArr xs)) = True"
| "truthy (Some (JObj members)) = True"

text \<open>The string a value is, if it is one.\<close>

fun string_value :: "json option \<Rightarrow> jsstring option" where
  "string_value (Some (JStr s)) = Some s"
| "string_value (Some JNull) = None"
| "string_value (Some (JBool b)) = None"
| "string_value (Some (JNum n)) = None"
| "string_value (Some (JArr xs)) = None"
| "string_value (Some (JObj members)) = None"
| "string_value None = None"

text \<open>
  A value written into a template literal is turned into a string. That throws
  a TypeError for an object with a member \<^verbatim>\<open>toString\<close> (the member hides
  \<^verbatim>\<open>Object.prototype.toString\<close> and cannot be called, and \<^verbatim>\<open>valueOf\<close> gives
  no primitive), and for an array with such an element, whose elements are
  turned into strings by \<^verbatim>\<open>join\<close>; it does not throw otherwise.
\<close>

fun to_string_throws :: "json \<Rightarrow> bool" where
  "to_string_throws (JObj members) = (js ''toString'' \<in> set (map fst members))"
| "to_string_throws (JArr xs) = list_ex to_string_throws xs"
| "to_string_throws JNull = False"
| "to_string_throws (JBool b) = False"
| "to_string_throws (JNum n) = False"
| "to_string_throws (JStr s) = False"

section \<open>Data model\<close>

text \<open>
  The values the script keeps in its module-level variables and in the parts
  of the page it reads back. Styling, scrolling, the character counter, the
  placeholder and footer texts, the list panel of staged files and the timers
  of a toast are display only and are left out.
\<close>

datatype who = User | Ai

text \<open>
  A stored message. \<^verbatim>\<open>sourceUrls\<close> is \<^verbatim>\<open>data.source_urls\<close> as it came,
  whatever value it is, and is absent in a message of the user.
\<close>

record message =
  content :: jsstring
  sender :: who
  sourceUrls :: "json option"
  timestamp :: jsstring

text \<open>A \<^verbatim>\<open>File\<close> of the browser, as far as the script reads it.\<close>

record jsfile =
  file_name :: jsstring
  file_size :: nat
  file_type :: jsstring

text \<open>
  An entry of \<^verbatim>\<open>uploadedPDFs\<close>: \<^verbatim>\<open>{name, size, file, id}\<close>. The id is
  a JavaScript number, \<^verbatim>\<open>Date.now() + Math.random()\<close>; it is only ever
  compared, and is kept as the rational it denotes.
\<close>

record staged =
  pdf_name :: jsstring
  pdf_size :: nat
  pdf_file :: jsfile
  pdf_id :: rat

text \<open>
  An entry of a reference block: its number, the value written into
  \<^verbatim>\<open>href\<close> and into the copy button, and the label.
\<close>

record reference =
  ref_index :: nat
  ref_href :: json
  ref_label :: jsstring

text \<open>
  A child of \<^verbatim>\<open>#chatMessages\<close>: a message bubble built by \<^verbatim>\<open>addMessage\<close>
  (its \<^verbatim>\<open>data-mode\<close> attribute, the sender, the formatted text that goes
  into \<^verbatim>\<open>innerHTML\<close>, and the entries of its reference block, none when
  there is no block) or the clone of the typing indicator.
\<close>

datatype node =
    MessageNode jsstring who jsstring "reference list"
  | TypingNode

datatype toast_type = ToastSuccess | ToastError

text \<open>
  The two requests of \<^verbatim>\<open>sendMessage\<close>: the JSON body of
  \<^verbatim>\<open>/api/rag-chat\<close> (message, timestamp) and the form of
  \<^verbatim>\<open>/api/pdf-rag-chat\<close> (message, timestamp, the files \<^verbatim>\<open>pdf_0\<close>, ...).
\<close>

datatype request =
    RagChat jsstring jsstring
  | PdfRagChat jsstring jsstring "jsfile list"

text \<open>
  What the script does to the outside and to its guard, in order: every
  \<^verbatim>\<open>fetch\<close> and every assignment to \<^verbatim>\<open>isTyping\<close>.
\<close>

datatype effect = TypingSet bool | NetworkCall request

text \<open>The two closures handed to \<^verbatim>\<open>showConfirmation\<close>.\<close>

datatype pending_action = ConfirmClearHistory | ConfirmClearPDF

record state =
  isTyping :: bool
  currentMode :: jsstring
  uploadedPDFs :: "staged list"
  menuOpen :: bool
  pendingClearAction :: "pending_action option"
  historyMessages :: "message list"
  pdfMessages :: "message list"
  inputValue :: jsstring
  chatNodes :: "node list"
  historyWelcomeHidden :: bool
  pdfWelcomeHidden :: bool
  activeMenuItem :: "nat option"
  confirmationActive :: bool
  toasts :: "(jsstring \<times> toast_type) list"
  effects :: "effect list"

text \<open>
  The page after loading: the initial values of the variables, no message and
  no toast, and the panels and the menu as the history mode shows them.
\<close>

definition initial :: state where
  "initial =
     \<lparr>isTyping = False, currentMode = js ''history'', uploadedPDFs = [], menuOpen = False,
      pendingClearAction = None, historyMessages = [], pdfMessages = [], inputValue = [],
      chatNodes = [], historyWelcomeHidden = False, pdfWelcomeHidden = True,
      activeMenuItem = Some 0, confirmationActive = False, toasts = [], effects = []\<rparr>"

section \<open>The fixed texts\<close>

definition msg_upload_first :: jsstring where
  "msg_upload_first =
     js ''Vui l'' @ [0x00F2] @ js ''ng t'' @ [0x1EA3] @ js ''i l'' @ [0x00EA] @ js ''n '' @ [0x00ED]
     @ js ''t nh'' @ [0x1EA5] @ js ''t m'' @ [0x1ED9] @ js ''t file PDF tr'' @ [0x01B0, 0x1EDB]
     @ js ''c khi '' @ [0x0111, 0x1EB7] @ js ''t c'' @ [0x00E2] @ js ''u h'' @ [0x1ECF] @ js ''i''"

definition msg_backend_failure :: jsstring where
  "msg_backend_failure =
     js ''Xin l'' @ [0x1ED7] @ js ''i, '' @ [0x0111, 0x00E3] @ js '' c'' @ [0x00F3] @ js '' l''
     @ [0x1ED7] @ js ''i x'' @ [0x1EA3] @ js ''y ra khi x'' @ [0x1EED] @ js '' l'' @ [0x00FD]
     @ js '' c'' @ [0x00E2] @ js ''u h'' @ [0x1ECF] @ js ''i c'' @ [0x1EE7] @ js ''a b'' @ [0x1EA1]
     @ js ''n. Vui l'' @ [0x00F2] @ js ''ng th'' @ [0x1EED] @ js '' l'' @ [0x1EA1] @ js ''i.''"

definition msg_no_connection :: jsstring where
  "msg_no_connection =
     js ''Xin l'' @ [0x1ED7] @ js ''i, kh'' @ [0x00F4] @ js ''ng th'' @ [0x1EC3] @ js '' k''
     @ [0x1EBF] @ js ''t n'' @ [0x1ED1] @ js ''i v'' @ [0x1EDB] @ js ''i server. Vui l'' @ [0x00F2]
     @ js ''ng ki'' @ [0x1EC3] @ js ''m tra k'' @ [0x1EBF] @ js ''t n'' @ [0x1ED1] @ js ''i m''
     @ [0x1EA1] @ js ''ng v'' @ [0x00E0] @ js '' th'' @ [0x1EED] @ js '' l'' @ [0x1EA1] @ js ''i.''"

definition label_placeholder :: jsstring where
  "label_placeholder = js ''Ngu'' @ [0x1ED3] @ js ''n tham kh'' @ [0x1EA3] @ js ''o''"

definition msg_history_cleared :: jsstring where
  "msg_history_cleared =
     [0x0110, 0x00E3] @ js '' x'' @ [0x00F3] @ js ''a t'' @ [0x1EA5] @ js ''t c'' @ [0x1EA3]
     @ js '' tin nh'' @ [0x1EAF] @ js ''n l'' @ [0x1ECB] @ js ''ch s'' @ [0xFFFD, 0xFFFD, 0xFFFD]
     @ js ''!''"

definition msg_pdf_cleared :: jsstring where
  "msg_pdf_cleared =
     [0x0110, 0x00E3] @ js '' x'' @ [0x00F3] @ js ''a t'' @ [0x1EA5] @ js ''t c'' @ [0x1EA3]
     @ js '' tin nh'' @ [0x1EAF] @ js ''n PDF v'' @ [0x00E0] @ js '' file PDF!''"

definition msg_too_large :: "jsstring \<Rightarrow> jsstring" where
  "msg_too_large name =
     js ''File '' @ name @ js '' qu'' @ [0x00E1] @ js '' l'' @ [0x1EDB] @ js ''n (t'' @ [0x1ED1]
     @ js ''i '' @ [0x0111] @ js ''a 10MB)''"

definition msg_already_uploaded :: "jsstring \<Rightarrow> jsstring" where
  "msg_already_uploaded name =
     js ''File '' @ name @ js '' '' @ [0x0111, 0x00E3] @ js '' '' @ [0x0111, 0x01B0, 0x1EE3]
     @ js ''c t'' @ [0x1EA3] @ js ''i l'' @ [0x00EA] @ js ''n''"

definition msg_file_added :: "jsstring \<Rightarrow> jsstring" where
  "msg_file_added name = [0x0110, 0x00E3] @ js '' th'' @ [0x00EA] @ js ''m file '' @ name"

definition msg_not_pdf :: "jsstring \<Rightarrow> jsstring" where
  "msg_not_pdf name =
     js ''File '' @ name @ js '' kh'' @ [0x00F4] @ js ''ng ph'' @ [0x1EA3] @ js ''i l'' @ [0x00E0]
     @ js '' PDF''"

definition msg_file_removed :: "jsstring \<Rightarrow> jsstring" where
  "msg_file_removed name = [0x0110, 0x00E3] @ js '' x'' @ [0x00F3] @ js ''a file '' @ name"

definition msg_only_pdf :: jsstring where
  "msg_only_pdf =
     js ''Ch'' @ [0x1EC9] @ js '' h'' @ [0x1ED7] @ js '' tr'' @ [0x1EE3] @ js '' file PDF''"

section \<open>Rendering a message\<close>

text \<open>
  \<^verbatim>\<open>new URL(url).hostname\<close> is the browser's URL parser and not code of this
  script: it is a parameter, giving the host name for the value \<open>url\<close> (a
  string, when the backend keeps to its contract) or nothing when the
  constructor throws.
\<close>

type_synonym url_parser = "json \<Rightarrow> jsstring option"

text \<open>
  \<^verbatim>\<open>
  function getDomainFromUrl(url) {
      try {
          const domain = new URL(url).hostname;
          return domain.replace('www.', '');
      } catch (e) {
          return 'Nguon tham khao';     (with its diacritics in the source)
      }
  }
  \<close>
\<close>

definition getDomainFromUrl :: "url_parser \<Rightarrow> json \<Rightarrow> jsstring" where
  "getDomainFromUrl hostname url =
     (case hostname url of
        Some domain \<Rightarrow> replace_first (js ''www.'') [] domain
      | None \<Rightarrow> label_placeholder)"

text \<open>The entries of the reference block, numbered from one (\<^verbatim>\<open>index + 1\<close>).\<close>

definition reference_block :: "url_parser \<Rightarrow> json list \<Rightarrow> reference list" where
  "reference_block hostname urls =
     map (\<lambda>(index, url). \<lparr>ref_index = index + 1, ref_href = url,
                            ref_label = getDomainFromUrl hostname url\<rparr>)
         (enumerate 0 urls)"

text \<open>
  The elements of \<^verbatim>\<open>sourceUrls\<close> when it is an array, none otherwise.
\<close>

fun url_array :: "json option \<Rightarrow> json list" where
  "url_array (Some (JArr us)) = us"
| "url_array (Some JNull) = []"
| "url_array (Some (JBool b)) = []"
| "url_array (Some (JNum n)) = []"
| "url_array (Some (JStr s)) = []"
| "url_array (Some (JObj members)) = []"
| "url_array None = []"

text \<open>
  How a call ends: normally, or by an exception, with the state the page has
  then. \<open>page\<close> is that state, for a call after which nothing else runs.
\<close>

datatype completion = Normal state | Thrown state

fun page :: "completion \<Rightarrow> state" where
  "page (Normal st) = st"
| "page (Thrown st) = st"

text \<open>
  \<^verbatim>\<open>addMessage(content, sender, sourceUrls = null)\<close> for a string
  \<open>content\<close> (with a content that is no string \<^verbatim>\<open>content.replace\<close> is no
  function and the call throws; the one caller that can pass such a content
  tests that first). The reference block is written when \<^verbatim>\<open>sourceUrls\<close> is
  a non-empty array and the sender is the AI; each URL is written into the
  markup, so the call throws, before anything is appended, when one of them
  cannot be turned into a string. Otherwise the bubble is appended, with
  \<^verbatim>\<open>data-mode = currentMode\<close> and \<^verbatim>\<open>formatMessage(content)\<close>.
\<close>

definition references_throw :: "who \<Rightarrow> json option \<Rightarrow> bool" where
  "references_throw sndr urls =
     (url_array urls \<noteq> [] \<and> sndr = Ai \<and> list_ex to_string_throws (url_array urls))"

definition addMessage :: "url_parser \<Rightarrow> jsstring \<Rightarrow> who \<Rightarrow> json option \<Rightarrow> state \<Rightarrow> completion" where
  "addMessage hostname txt sndr urls st =
     (if references_throw sndr urls then Thrown st
      else
        let refs = (if url_array urls \<noteq> [] \<and> sndr = Ai
                    then reference_block hostname (url_array urls) else [])
        in Normal (st\<lparr>chatNodes := chatNodes st
                          @ [MessageNode (currentMode st) sndr (formatMessage txt) refs]\<rparr>))"

definition showToast :: "jsstring \<Rightarrow> toast_type \<Rightarrow> state \<Rightarrow> state" where
  "showToast msg kind st = st\<lparr>toasts := toasts st @ [(msg, kind)]\<rparr>"

section \<open>The typing indicator and the guard\<close>

definition showTypingIndicator :: "state \<Rightarrow> state" where
  "showTypingIndicator st =
     st\<lparr>isTyping := True,
        chatNodes := chatNodes st @ [TypingNode],
        effects := effects st @ [TypingSet True]\<rparr>"

text \<open>\<^verbatim>\<open>getElementById\<close> finds the first indicator, if there is one.\<close>

definition hideTypingIndicator :: "state \<Rightarrow> state" where
  "hideTypingIndicator st =
     st\<lparr>isTyping := False,
        chatNodes := remove1 TypingNode (chatNodes st),
        effects := effects st @ [TypingSet False]\<rparr>"

section \<open>sendMessage\<close>

text \<open>
  How the request ends: \<^verbatim>\<open>fetch\<close> rejects, or a response arrives with its
  status and the value that \<^verbatim>\<open>response.json()\<close> yields (nothing when it
  rejects). The value is whatever the body holds, not only what the two
  endpoints document, \<^verbatim>\<open>{ success, answer?, source_urls? }\<close>.
  \<^verbatim>\<open>response.ok\<close> is true for the statuses 200 to 299.
\<close>

datatype outcome = FetchRejected | HttpResponse nat "json option"

definition response_ok :: "nat \<Rightarrow> bool" where
  "response_ok status = (200 \<le> status \<and> status \<le> 299)"

text \<open>
  \<^verbatim>\<open>sendMessage\<close> is an async function. It runs up to \<^verbatim>\<open>await fetch(...)\<close>,
  and is resumed when the request has ended; in between, any other handler
  of the page may run. \<open>sendMessage_dispatch\<close> is the first part: it returns
  the state and whether the function has returned or is waiting.
  \<open>sendMessage_resume\<close> is the rest, run on the state the page has then. (When
  the response is fine the function waits a second time, for
  \<^verbatim>\<open>response.json()\<close>, having changed nothing in between, so both waits are
  one here.) The two timestamps of the first part are the values of
  \<^verbatim>\<open>new Date().toISOString()\<close> for the stored message and for the request.
\<close>

datatype suspension = Returned state | Awaiting state

text \<open>
  \<^verbatim>\<open>
  } catch (error) {
      console.error('Error:', error);
      hideTypingIndicator();
      addMessage('Xin loi, khong the ket noi voi server. ...', 'ai');
  }
  \<close>
\<close>

definition catch_block :: "url_parser \<Rightarrow> state \<Rightarrow> state" where
  "catch_block hostname st =
     page (addMessage hostname msg_no_connection Ai None (hideTypingIndicator st))"


definition push_message :: "message \<Rightarrow> state \<Rightarrow> state" where
  "push_message m st =
     (if currentMode st = js ''history''
      then st\<lparr>historyMessages := historyMessages st @ [m]\<rparr>
      else st\<lparr>pdfMessages := pdfMessages st @ [m]\<rparr>)"

definition sendMessage_dispatch :: "url_parser \<Rightarrow> jsstring \<Rightarrow> jsstring \<Rightarrow> state \<Rightarrow> suspension" where
  "sendMessage_dispatch hostname now now' st =
     (let message = trim (inputValue st) in
      if message = [] \<or> isTyping st then Returned st
      else if currentMode st = js ''pdf'' \<and> uploadedPDFs st = [] then
        Returned (showToast msg_upload_first ToastError st)
      else
        (case addMessage hostname message User None st of
           Thrown st' \<Rightarrow> Returned st'
         | Normal st1 \<Rightarrow>
             let messageObj = \<lparr>content = message, sender = User, sourceUrls = None, timestamp = now\<rparr>;
                 st2 = push_message messageObj st1;
                 st3 = st2\<lparr>inputValue := []\<rparr>;
                 st4 = showTypingIndicator st3
             in if currentMode st4 = js ''history'' then
                  Awaiting (st4\<lparr>effects := effects st4 @ [NetworkCall (RagChat message now')]\<rparr>)
                else if currentMode st4 = js ''pdf'' then
                  Awaiting (st4\<lparr>effects := effects st4
                               @ [NetworkCall (PdfRagChat message now' (map pdf_file (uploadedPDFs st4)))]\<rparr>)
                else Returned (catch_block hostname st4)))"

text \<open>
  In the last branch \<^verbatim>\<open>response\<close> is still undefined, \<^verbatim>\<open>response.ok\<close>
  throws, and the catch block runs at once.

  The rest of the function, from the end of the request on:
  \<^verbatim>\<open>
      if (!response.ok) { throw new Error(...); }
      const data = await response.json();
      hideTypingIndicator();
      if (data.success) {
          addMessage(data.answer, 'ai', data.source_urls);
          const aiMessageObj = { content: data.answer, sender: 'ai',
                                 sourceUrls: data.source_urls, timestamp: ... };
          if (currentMode === 'history') { historyMessages.push(aiMessageObj); }
          else { pdfMessages.push(aiMessageObj); }
      } else {
          addMessage('Xin loi, da co loi xay ra ...', 'ai');
      }
  \<close>
  After the indicator was hidden, three things can throw, and then the catch
  block runs: \<^verbatim>\<open>data.success\<close> when \<open>data\<close> is null; \<^verbatim>\<open>formatMessage\<close>
  in \<^verbatim>\<open>addMessage\<close> when \<^verbatim>\<open>data.answer\<close> is no string; and the writing of
  the reference block in \<^verbatim>\<open>addMessage\<close>.
\<close>

definition sendMessage_resume :: "url_parser \<Rightarrow> jsstring \<Rightarrow> outcome \<Rightarrow> state \<Rightarrow> state" where
  "sendMessage_resume hostname now out st =
     (case out of
        FetchRejected \<Rightarrow> catch_block hostname st
      | HttpResponse status body \<Rightarrow>
          if \<not> response_ok status then catch_block hostname st
          else (case body of
                  None \<Rightarrow> catch_block hostname st
                | Some data \<Rightarrow>
                    let st1 = hideTypingIndicator st in
                    if data = JNull then catch_block hostname st1
                    else if truthy (get_field data (js ''success'')) then
                      (case string_value (get_field data (js ''answer'')) of
                         None \<Rightarrow> catch_block hostname st1
                       | Some text \<Rightarrow>
                           (case addMessage hostname text Ai (get_field data (js ''source_urls'')) st1 of
                              Thrown st' \<Rightarrow> catch_block hostname st'
                            | Normal st2 \<Rightarrow>
                                let aiMessageObj = \<lparr>content = text, sender = Ai,
                                                    sourceUrls = get_field data (js ''source_urls''),
                                                    timestamp = now\<rparr>
                                in push_message aiMessageObj st2))
                    else (case addMessage hostname msg_backend_failure Ai None st1 of
                            Thrown st' \<Rightarrow> catch_block hostname st'
                          | Normal st2 \<Rightarrow> st2)))"

text \<open>
  \<open>inputValue\<close> is what \<^verbatim>\<open>messageInput.value\<close> reads. A text area gives
  its value back with the newlines normalised: every CR LF pair and then
  every remaining CR is a LF. \<^verbatim>\<open>sendSampleQuery(query)\<close> assigns the value
  and calls \<^verbatim>\<open>sendMessage\<close>.
\<close>

fun normalize_newlines :: "jsstring \<Rightarrow> jsstring" where
  "normalize_newlines [] = []"
| "normalize_newlines [c] = [if c = 0x000D then 0x000A else c]"
| "normalize_newlines (c # d # cs) =
     (if c = 0x000D \<and> d = 0x000A then 0x000A # normalize_newlines cs
      else if c = 0x000D then 0x000A # normalize_newlines (d # cs)
      else c # normalize_newlines (d # cs))"

definition sendSampleQuery :: "url_parser \<Rightarrow> jsstring \<Rightarrow> jsstring \<Rightarrow> jsstring \<Rightarrow> state \<Rightarrow> suspension" where
  "sendSampleQuery hostname now now' query st =
     sendMessage_dispatch hostname now now' (st\<lparr>inputValue := normalize_newlines query\<rparr>)"

section \<open>Switching the mode\<close>

text \<open>
  The bubbles and the indicator carry the class \<^verbatim>\<open>message-animation\<close> (the
  indicator in the template under \<^verbatim>\<open>templates/backup\<close>) and no id with
  \<^verbatim>\<open>Welcome\<close> in it, so \<^verbatim>\<open>loadMessages\<close> removes them all. The two
  welcome panels stay; only their \<^verbatim>\<open>hidden\<close> class changes.
\<close>

fun message_animation :: "node \<Rightarrow> bool" where
  "message_animation (MessageNode m s b r) = True"
| "message_animation TypingNode = True"

text \<open>
  \<^verbatim>\<open>messagesToLoad.forEach(msg => addMessage(msg.content, msg.sender, msg.sourceUrls))\<close>:
  an exception of \<^verbatim>\<open>addMessage\<close> ends the loop and leaves the bubbles
  added so far.
\<close>

fun load_each :: "url_parser \<Rightarrow> message list \<Rightarrow> state \<Rightarrow> completion" where
  "load_each hostname [] st = Normal st"
| "load_each hostname (msg # msgs) st =
     (case addMessage hostname (content msg) (sender msg) (sourceUrls msg) st of
        Thrown st' \<Rightarrow> Thrown st'
      | Normal st' \<Rightarrow> load_each hostname msgs st')"

definition loadMessages :: "url_parser \<Rightarrow> jsstring \<Rightarrow> state \<Rightarrow> completion" where
  "loadMessages hostname mode st =
     (let st1 = st\<lparr>chatNodes := filter (\<lambda>n. \<not> message_animation n) (chatNodes st)\<rparr>;
          messagesToLoad = (if mode = js ''history'' then historyMessages st1 else pdfMessages st1)
      in load_each hostname messagesToLoad st1)"

definition closeMenus :: "state \<Rightarrow> state" where
  "closeMenus st = st\<lparr>menuOpen := False\<rparr>"

text \<open>
  \<^verbatim>\<open>
  function switchMode(mode) {
      currentMode = mode;
      menuItems.forEach(item => item.classList.remove('active'));
      if (mode === 'history') { menuItems[0] active; welcome panels; loadMessages('history'); }
      else if (mode === 'pdf') { menuItems[1] active; welcome panels; ...; loadMessages('pdf'); }
      updateCurrentModeText();
      (close the menu)
  }
  \<close>
  The result is the state of the page when the handler has ended; when
  \<^verbatim>\<open>loadMessages\<close> throws, what follows it is not run and the menu stays
  as it is.
\<close>

definition after_load :: "completion \<Rightarrow> state" where
  "after_load c = (case c of Normal st \<Rightarrow> closeMenus st | Thrown st \<Rightarrow> st)"

definition switchMode :: "url_parser \<Rightarrow> jsstring \<Rightarrow> state \<Rightarrow> state" where
  "switchMode hostname mode st =
     (let st1 = st\<lparr>currentMode := mode, activeMenuItem := None\<rparr>
      in if mode = js ''history'' then
           after_load (loadMessages hostname (js ''history'')
                         (st1\<lparr>activeMenuItem := Some 0, historyWelcomeHidden := False,
                              pdfWelcomeHidden := True\<rparr>))
         else if mode = js ''pdf'' then
           after_load (loadMessages hostname (js ''pdf'')
                         (st1\<lparr>activeMenuItem := Some 1, historyWelcomeHidden := True,
                              pdfWelcomeHidden := False\<rparr>))
         else closeMenus st1)"

definition toggleMenu :: "state \<Rightarrow> state" where
  "toggleMenu st = st\<lparr>menuOpen := \<not> menuOpen st\<rparr>"

section \<open>Clearing a thread, behind the confirmation dialog\<close>

fun has_data_mode :: "jsstring \<Rightarrow> node \<Rightarrow> bool" where
  "has_data_mode mode (MessageNode m s b r) = (m = mode)"
| "has_data_mode mode TypingNode = False"

text \<open>
  \<^verbatim>\<open>showConfirmation(title, message, onConfirm)\<close> stores the closure and opens
  the dialog (the texts of the dialog are display only).
\<close>

definition showConfirmation :: "pending_action \<Rightarrow> state \<Rightarrow> state" where
  "showConfirmation onConfirm st =
     st\<lparr>pendingClearAction := Some onConfirm, confirmationActive := True\<rparr>"

definition hideConfirmation :: "state \<Rightarrow> state" where
  "hideConfirmation st = st\<lparr>confirmationActive := False, pendingClearAction := None\<rparr>"

definition clearHistoryMode :: "state \<Rightarrow> state" where
  "clearHistoryMode st = showConfirmation ConfirmClearHistory st"

definition clearPDFChat :: "state \<Rightarrow> state" where
  "clearPDFChat st = showConfirmation ConfirmClearPDF st"

text \<open>
  The closure of \<^verbatim>\<open>clearHistoryMode\<close>:
  \<^verbatim>\<open>
      historyMessages = [];
      chatMessages.querySelectorAll('[data-mode="history"]').forEach(m => m.remove());
      if (currentMode === 'history') { historyWelcome.classList.remove('hidden'); }
      showToast(...);
      closeMenus();
  \<close>
  and the closure of \<^verbatim>\<open>clearPDFChat\<close>, which empties \<^verbatim>\<open>uploadedPDFs\<close> too.
\<close>

fun run_action :: "pending_action \<Rightarrow> state \<Rightarrow> state" where
  "run_action ConfirmClearHistory st =
     (let st1 = st\<lparr>historyMessages := []\<rparr>;
          st2 = st1\<lparr>chatNodes := filter (\<lambda>n. \<not> has_data_mode (js ''history'') n) (chatNodes st1)\<rparr>;
          st3 = (if currentMode st2 = js ''history'' then st2\<lparr>historyWelcomeHidden := False\<rparr> else st2)
      in closeMenus (showToast msg_history_cleared ToastSuccess st3))"
| "run_action ConfirmClearPDF st =
     (let st1 = st\<lparr>pdfMessages := []\<rparr>;
          st2 = st1\<lparr>uploadedPDFs := []\<rparr>;
          st3 = st2\<lparr>chatNodes := filter (\<lambda>n. \<not> has_data_mode (js ''pdf'') n) (chatNodes st2)\<rparr>;
          st4 = (if currentMode st3 = js ''pdf'' then st3\<lparr>pdfWelcomeHidden := False\<rparr> else st3)
      in closeMenus (showToast msg_pdf_cleared ToastSuccess st4))"

text \<open>
  \<^verbatim>\<open>
  function confirmAction() {
      if (pendingClearAction) { pendingClearAction(); hideConfirmation(); }
  }
  \<close>
\<close>

definition confirmAction :: "state \<Rightarrow> state" where
  "confirmAction st =
     (case pendingClearAction st of
        Some action \<Rightarrow> hideConfirmation (run_action action st)
      | None \<Rightarrow> st)"

section \<open>Staging files\<close>

text \<open>\<^verbatim>\<open>Array.prototype.findIndex\<close>, with nothing for \<^verbatim>\<open>-1\<close>.\<close>

fun find_index :: "('a \<Rightarrow> bool) \<Rightarrow> 'a list \<Rightarrow> nat option" where
  "find_index p [] = None"
| "find_index p (x # xs) =
     (if p x then Some 0 else map_option Suc (find_index p xs))"

text \<open>
  The callback of \<^verbatim>\<open>files.forEach\<close> in \<^verbatim>\<open>handleFileSelect\<close>, for one
  file; a \<^verbatim>\<open>return\<close> in it ends the callback for this file only. The
  second component is the value \<^verbatim>\<open>Date.now() + Math.random()\<close> has when the
  file is stored.
  \<^verbatim>\<open>
      if (file.type === 'application/pdf') {
          if (file.size > 10 * 1024 * 1024) { showToast(..., 'error'); return; }
          const existingFile = uploadedPDFs.find(pdf => pdf.name === file.name && pdf.size === file.size);
          if (existingFile) { showToast(..., 'error'); return; }
          uploadedPDFs.push({ name: file.name, size: file.size, file: file, id: ... });
          showToast(...);
      } else {
          showToast(..., 'error');
      }
  \<close>
\<close>

definition stage_file :: "jsfile \<times> rat \<Rightarrow> state \<Rightarrow> state" where
  "stage_file candidate st =
     (let file = fst candidate; fresh = snd candidate in
      if file_type file = js ''application/pdf'' then
        if file_size file > 10 * 1024 * 1024 then
          showToast (msg_too_large (file_name file)) ToastError st
        else if find (\<lambda>pdf. pdf_name pdf = file_name file \<and> pdf_size pdf = file_size file)
                     (uploadedPDFs st) \<noteq> None then
          showToast (msg_already_uploaded (file_name file)) ToastError st
        else
          showToast (msg_file_added (file_name file)) ToastSuccess
            (st\<lparr>uploadedPDFs := uploadedPDFs st
                    @ [\<lparr>pdf_name = file_name file, pdf_size = file_size file,
                         pdf_file = file, pdf_id = fresh\<rparr>]\<rparr>)
      else showToast (msg_not_pdf (file_name file)) ToastError st)"

definition handleFileSelect :: "(jsfile \<times> rat) list \<Rightarrow> state \<Rightarrow> state" where
  "handleFileSelect files st = fold stage_file files st"

text \<open>
  The \<^verbatim>\<open>drop\<close> handler keeps the PDF files of what was dropped and hands
  them to \<^verbatim>\<open>handleFileSelect\<close>, or shows a toast when there is none.
\<close>

definition handleDrop :: "(jsfile \<times> rat) list \<Rightarrow> state \<Rightarrow> state" where
  "handleDrop files st =
     (let pdfFiles = filter (\<lambda>candidate. file_type (fst candidate) = js ''application/pdf'') files in
      if pdfFiles \<noteq> [] then handleFileSelect pdfFiles st
      else showToast msg_only_pdf ToastError st)"

text \<open>
  \<^verbatim>\<open>
  function removePDFFile(fileId) {
      const fileIndex = uploadedPDFs.findIndex(pdf => pdf.id === fileId);
      if (fileIndex !== -1) {
          const fileName = uploadedPDFs[fileIndex].name;
          uploadedPDFs.splice(fileIndex, 1);
          ...
          showToast(...);
      }
  }
  \<close>
\<close>

definition removePDFFile :: "rat \<Rightarrow> state \<Rightarrow> state" where
  "removePDFFile fileId st =
     (case find_index (\<lambda>pdf. pdf_id pdf = fileId) (uploadedPDFs st) of
        Some fileIndex \<Rightarrow>
          (let fileName = pdf_name (uploadedPDFs st ! fileIndex) in
           showToast (msg_file_removed fileName) ToastSuccess
             (st\<lparr>uploadedPDFs := take fileIndex (uploadedPDFs st)
                                  @ drop (Suc fileIndex) (uploadedPDFs st)\<rparr>))
      | None \<Rightarrow> st)"

text \<open>
  The operations on the staged files (adding by selection or by dropping,
  removing, clearing), and a run of them.
\<close>

datatype upload_op =
    Add "(jsfile \<times> rat) list"
  | Drop "(jsfile \<times> rat) list"
  | Remove rat
  | Clear

fun upload_step :: "upload_op \<Rightarrow> state \<Rightarrow> state" where
  "upload_step (Add files) st = handleFileSelect files st"
| "upload_step (Drop files) st = handleDrop files st"
| "upload_step (Remove fileId) st = removePDFFile fileId st"
| "upload_step Clear st = confirmAction (clearPDFChat st)"

definition upload_run :: "upload_op list \<Rightarrow> state \<Rightarrow> state" where
  "upload_run ops st = fold upload_step ops st"

definition staged_key :: "staged \<Rightarrow> jsstring \<times> nat" where
  "staged_key pdf = (pdf_name pdf, pdf_size pdf)"

section \<open>Notions used in the statements\<close>

text \<open>The state an async call has reached, returned or waiting.\<close>

fun the_state :: "suspension \<Rightarrow> state" where
  "the_state (Returned st) = st"
| "the_state (Awaiting st) = st"



text \<open>
  The responses whose handling throws after the indicator was hidden: the
  status is from 200 to 299 and the body is null, or it reports success and
  its answer is no string or its source URLs cannot be written.
\<close>

definition throws_after_reset :: "outcome \<Rightarrow> bool" where
  "throws_after_reset out =
     (case out of
        FetchRejected \<Rightarrow> False
      | HttpResponse status body \<Rightarrow>
          (case body of
             None \<Rightarrow> False
           | Some data \<Rightarrow>
               response_ok status
               \<and> (data = JNull
                    \<or> (truthy (get_field data (js ''success''))
                        \<and> (string_value (get_field data (js ''answer'')) = None
                             \<or> references_throw Ai (get_field data (js ''source_urls'')))))))"

text \<open>The keys (name, size) of the staged files, in order.\<close>

definition staged_keys :: "state \<Rightarrow> (jsstring \<times> nat) list" where
  "staged_keys st = map staged_key (uploadedPDFs st)"

text \<open>
  The label as the specification words it: the host with a leading
  \<^verbatim>\<open>www.\<close> stripped.
\<close>

definition spec_strip_leading_www :: "jsstring \<Rightarrow> jsstring" where
  "spec_strip_leading_www host =
     (if startsWith host (js ''www.'') then drop (length (js ''www.'')) host else host)"

subsection \<open>Concrete inputs\<close>

text \<open>A URL parser that rejects every URL, for runs in which no URL occurs.\<close>

definition no_parser :: url_parser where
  "no_parser url = None"

text \<open>A URL parser that knows one URL, and the host the browser gives for it.\<close>

definition docs_parser :: url_parser where
  "docs_parser url =
     (if url = JStr (js ''https://docs.www.example.com/a'') then Some (js ''docs.www.example.com'')
      else None)"

text \<open>Bodies of responses.\<close>

definition body_answer_A :: json where
  "body_answer_A = JObj [(js ''success'', JBool True), (js ''answer'', JStr (js ''A''))]"

definition body_success_only :: json where
  "body_success_only = JObj [(js ''success'', JBool True)]"

definition body_failure :: json where
  "body_failure = JObj [(js ''success'', JBool False)]"

text \<open>The page with \<^verbatim>\<open>hi\<close> typed, and the same after \<^verbatim>\<open>sendMessage\<close> has sent it.\<close>

definition typed_hi :: state where
  "typed_hi = initial\<lparr>inputValue := js ''hi''\<rparr>"

definition in_flight :: state where
  "in_flight = the_state (sendMessage_dispatch no_parser (js ''t0'') (js ''t1'') typed_hi)"

definition blank_input :: state where
  "blank_input = initial\<lparr>inputValue := js ''  '' @ [0x000A]\<rparr>"

definition busy_again :: state where
  "busy_again = in_flight\<lparr>inputValue := js ''again''\<rparr>"

definition pdf_no_docs :: state where
  "pdf_no_docs = (switchMode no_parser (js ''pdf'') initial)\<lparr>inputValue := js ''hi''\<rparr>"

definition report_pdf :: jsfile where
  "report_pdf = \<lparr>file_name = js ''report.pdf'', file_size = 2048, file_type = js ''application/pdf''\<rparr>"

definition scan_pdf :: jsfile where
  "scan_pdf = \<lparr>file_name = js ''scan.pdf'', file_size = 4096, file_type = js ''application/pdf''\<rparr>"

definition notes_txt :: jsfile where
  "notes_txt = \<lparr>file_name = js ''notes.txt'', file_size = 10, file_type = js ''text/plain''\<rparr>"

definition staged_report :: state where
  "staged_report = handleFileSelect [(report_pdf, 1)] initial"

section \<open>Facts about strings and formatting\<close>

lemma replace_delimited_absent:
  "d \<noteq> [] \<Longrightarrow> hd d \<notin> set s \<Longrightarrow> replace_delimited d opn cls s = s"
proof (induction s)
  case Nil
  then show ?case by simp
next
  case (Cons c cs)
  from Cons.prems have "\<not> startsWith (c # cs) d"
    by (cases d) (auto simp: startsWith_def)
  with Cons show ?case by simp
qed

lemma replace_newlines_absent:
  "0x000A \<notin> set s \<Longrightarrow> replace_newlines s = s"
  by (induction s) (auto simp: replace_newlines_def)

lemma formatMessage_plain:
  assumes "0x002A \<notin> set s" and "0x000A \<notin> set s"
  shows "formatMessage s = s"
proof -
  have "replace_bold s = s"
    unfolding replace_bold_def using assms(1)
    by (intro replace_delimited_absent) (simp_all add: js_def)
  moreover have "replace_italic s = s"
    unfolding replace_italic_def using assms(1)
    by (intro replace_delimited_absent) (simp_all add: js_def)
  ultimately show ?thesis
    using assms(2) by (simp add: formatMessage_def replace_newlines_absent)
qed

lemma msg_no_connection_plain: "formatMessage msg_no_connection = msg_no_connection"
  by (rule formatMessage_plain) (simp_all add: msg_no_connection_def js_def)


lemma trim_spaces:
  assumes "list_all is_js_space s"
  shows "trim s = []"
proof -
  from assms have "dropWhile is_js_space s = []"
    by (simp only: dropWhile_eq_Nil_conv list_all_iff)
  then show ?thesis
    unfolding trim_def by (simp only: rev.simps dropWhile.simps)
qed

section \<open>Facts about sendMessage\<close>

lemmas run_defs = sendMessage_dispatch_def sendMessage_resume_def catch_block_def push_message_def
  addMessage_def showToast_def showTypingIndicator_def hideTypingIndicator_def response_ok_def
  switchMode_def loadMessages_def after_load_def closeMenus_def

lemma references_throw_None [simp]: "\<not> references_throw sndr None"
  by (simp add: references_throw_def)

lemma addMessage_plain_urls:
  "addMessage hostname txt sndr None st
     = Normal (st\<lparr>chatNodes := chatNodes st @ [MessageNode (currentMode st) sndr (formatMessage txt) []]\<rparr>)"
  by (simp add: addMessage_def)

lemmas body_defs = body_answer_A_def body_success_only_def body_failure_def

lemma in_flight_eq:
  "sendMessage_dispatch no_parser (js ''t0'') (js ''t1'') typed_hi = Awaiting in_flight"
  by (simp add: in_flight_def typed_hi_def initial_def run_defs trim_def is_js_space_def Let_def js_def)

lemma in_flight_state:
  "in_flight =
     \<lparr>isTyping = True, currentMode = js ''history'', uploadedPDFs = [], menuOpen = False,
      pendingClearAction = None,
      historyMessages = [\<lparr>content = js ''hi'', sender = User, sourceUrls = None, timestamp = js ''t0''\<rparr>],
      pdfMessages = [], inputValue = [],
      chatNodes = [MessageNode (js ''history'') User (js ''hi'') [], TypingNode],
      historyWelcomeHidden = False, pdfWelcomeHidden = True, activeMenuItem = Some 0,
      confirmationActive = False, toasts = [],
      effects = [TypingSet True, NetworkCall (RagChat (js ''hi'') (js ''t1''))]\<rparr>"
  by (simp add: in_flight_def typed_hi_def initial_def run_defs trim_def is_js_space_def Let_def
      formatMessage_def replace_bold_def replace_italic_def replace_newlines_def startsWith_def js_def)

lemma catch_block_eq:
  "catch_block hostname st =
     st\<lparr>isTyping := False,
        chatNodes := remove1 TypingNode (chatNodes st) @ [MessageNode (currentMode st) Ai msg_no_connection []],
        effects := effects st @ [TypingSet False]\<rparr>"
  by (simp add: catch_block_def addMessage_plain_urls hideTypingIndicator_def msg_no_connection_plain)

lemma resume_guard_false: "\<not> isTyping (sendMessage_resume hostname now out st)"
  by (simp add: sendMessage_resume_def catch_block_eq hideTypingIndicator_def addMessage_def
      push_message_def Let_def split: outcome.splits option.splits)

lemma resume_effects:
  "effects (sendMessage_resume hostname now out st)
     = effects st @ (if throws_after_reset out then [TypingSet False, TypingSet False]
                     else [TypingSet False])"
  by (simp add: sendMessage_resume_def catch_block_eq hideTypingIndicator_def addMessage_def
      push_message_def throws_after_reset_def Let_def split: outcome.splits option.splits)

lemma dispatch_effects:
  assumes "sendMessage_dispatch hostname now now' st = Awaiting st1"
  shows "isTyping st1 \<and> (\<exists>req. effects st1 = effects st @ [TypingSet True, NetworkCall req])"
  using assms
  by (auto simp: sendMessage_dispatch_def showTypingIndicator_def addMessage_def push_message_def
      Let_def split: if_splits)

lemma dispatch_user_message:
  assumes "sendMessage_dispatch hostname now now' st = Awaiting st1"
  shows "historyMessages st1
           = historyMessages st @ (if currentMode st = js ''history''
               then [\<lparr>content = trim (inputValue st), sender = User, sourceUrls = None, timestamp = now\<rparr>]
               else [])
         \<and> pdfMessages st1
           = pdfMessages st @ (if currentMode st = js ''history'' then []
               else [\<lparr>content = trim (inputValue st), sender = User, sourceUrls = None, timestamp = now\<rparr>])
         \<and> currentMode st1 = currentMode st"
  using assms
  by (auto simp: sendMessage_dispatch_def showTypingIndicator_def addMessage_def push_message_def
      Let_def split: if_splits)

section \<open>The claims about sendMessage\<close>

text \<open>
  C1, as the code has it. When a request ends in a status from 200 to 299
  and a body that reports success and has a string as its answer, the AI
  message is appended to exactly one thread, and that thread is chosen by the
  value \<^verbatim>\<open>currentMode\<close> has when the response arrives: the history thread
  when it is \<^verbatim>\<open>history\<close>, the pdf thread otherwise. (Only when the source
  URLs of the body cannot be written into the bubble is there no structural
  success, and nothing is appended.) The state \<open>st\<close> is the one the page has
  at that moment, whatever ran since the request was sent. So the answer
  reaches the thread of the dispatch mode only if the mode at arrival selects
  the same thread.
\<close>

theorem response_lands_in_arrival_thread:
  assumes "response_ok status"
    and "truthy (get_field data (js ''success''))"
    and "string_value (get_field data (js ''answer'')) = Some txt"
  shows "historyMessages (sendMessage_resume hostname now (HttpResponse status (Some data)) st)
           = historyMessages st
             @ (if currentMode st = js ''history''
                   \<and> \<not> references_throw Ai (get_field data (js ''source_urls''))
                then [\<lparr>content = txt, sender = Ai,
                       sourceUrls = get_field data (js ''source_urls''), timestamp = now\<rparr>]
                else [])
         \<and> pdfMessages (sendMessage_resume hostname now (HttpResponse status (Some data)) st)
           = pdfMessages st
             @ (if currentMode st \<noteq> js ''history''
                   \<and> \<not> references_throw Ai (get_field data (js ''source_urls''))
                then [\<lparr>content = txt, sender = Ai,
                       sourceUrls = get_field data (js ''source_urls''), timestamp = now\<rparr>]
                else [])"
proof -
  from assms(2) have "data \<noteq> JNull"
    by auto
  with assms show ?thesis
    by (simp add: sendMessage_resume_def hideTypingIndicator_def addMessage_def catch_block_eq
        push_message_def Let_def)
qed

text \<open>
  The theorem at a request sent and answered in history mode: the history
  thread holds the question and then the answer.
\<close>

theorem response_lands_in_arrival_thread_witness:
  "response_ok 200
   \<and> truthy (get_field body_answer_A (js ''success''))
   \<and> string_value (get_field body_answer_A (js ''answer'')) = Some (js ''A'')
   \<and> historyMessages
        (sendMessage_resume no_parser (js ''t2'') (HttpResponse 200 (Some body_answer_A)) in_flight)
      = [\<lparr>content = js ''hi'', sender = User, sourceUrls = None, timestamp = js ''t0''\<rparr>,
         \<lparr>content = js ''A'', sender = Ai, sourceUrls = None, timestamp = js ''t2''\<rparr>]
   \<and> pdfMessages
        (sendMessage_resume no_parser (js ''t2'') (HttpResponse 200 (Some body_answer_A)) in_flight)
      = []"
proof -
  have ok: "response_ok 200"
    by (simp add: response_ok_def)
  have s: "truthy (get_field body_answer_A (js ''success''))"
    by (simp add: body_answer_A_def js_def)
  have a: "string_value (get_field body_answer_A (js ''answer'')) = Some (js ''A'')"
    by (simp add: body_answer_A_def js_def)
  have u: "get_field body_answer_A (js ''source_urls'') = None"
    by (simp add: body_answer_A_def js_def)
  have r: "\<not> references_throw Ai (get_field body_answer_A (js ''source_urls''))"
    by (simp add: u)
  from ok s a r response_lands_in_arrival_thread [OF ok s a, of no_parser "js ''t2''" in_flight]
  show ?thesis
    by (simp add: in_flight_state u)
qed

text \<open>
  C1 as stated fails. A question is sent in history mode, the user switches
  to pdf mode while the request is in flight, and the successful response
  arrives: the history thread, active at dispatch, holds the question alone,
  and the answer is in the pdf thread.
\<close>

theorem response_lands_in_arrival_thread_counterexample:
  "sendMessage_dispatch no_parser (js ''t0'') (js ''t1'') typed_hi = Awaiting in_flight
   \<and> currentMode typed_hi = js ''history''
   \<and> historyMessages
        (sendMessage_resume no_parser (js ''t2'') (HttpResponse 200 (Some body_answer_A))
           (switchMode no_parser (js ''pdf'') in_flight))
      = [\<lparr>content = js ''hi'', sender = User, sourceUrls = None, timestamp = js ''t0''\<rparr>]
   \<and> pdfMessages
        (sendMessage_resume no_parser (js ''t2'') (HttpResponse 200 (Some body_answer_A))
           (switchMode no_parser (js ''pdf'') in_flight))
      = [\<lparr>content = js ''A'', sender = Ai, sourceUrls = None, timestamp = js ''t2''\<rparr>]"
  by (simp add: in_flight_eq)
    (simp add: in_flight_state typed_hi_def initial_def run_defs body_defs Let_def js_def)

text \<open>
  C2, as the code has it. A call that issues a request found the guard
  false, sets it, and only then issues the request. When the request has
  ended, on whatever state the page has then and with whatever outcome
  (\<^verbatim>\<open>fetch\<close> rejected, any status, a body that cannot be read, any JSON
  value as the body), the guard is false afterwards. It is assigned false
  once, except when the handling of a response throws after the indicator was
  hidden: the status is from 200 to 299 and the body is null, or it reports
  success and has no string as its answer or has source URLs that cannot be
  written. There the catch block hides the indicator again, so the guard is
  assigned false twice.
\<close>

theorem guard_released:
  assumes "sendMessage_dispatch hostname now now' st = Awaiting st1"
  shows "\<not> isTyping st \<and> isTyping st1
         \<and> (\<exists>req. effects st1 = effects st @ [TypingSet True, NetworkCall req])
         \<and> \<not> isTyping (sendMessage_resume hostname later out st2)
         \<and> effects (sendMessage_resume hostname later out st2)
             = effects st2 @ (if throws_after_reset out then [TypingSet False, TypingSet False]
                              else [TypingSet False])"
proof -
  from assms have "\<not> isTyping st"
    by (auto simp: sendMessage_dispatch_def Let_def split: if_splits)
  with dispatch_effects [OF assms] resume_guard_false resume_effects show ?thesis
    by simp
qed

theorem guard_released_witness:
  "sendMessage_dispatch no_parser (js ''t0'') (js ''t1'') typed_hi = Awaiting in_flight
   \<and> \<not> isTyping typed_hi \<and> isTyping in_flight
   \<and> (\<exists>req. effects in_flight = effects typed_hi @ [TypingSet True, NetworkCall req])
   \<and> \<not> isTyping (sendMessage_resume no_parser (js ''t2'') FetchRejected in_flight)
   \<and> effects (sendMessage_resume no_parser (js ''t2'') FetchRejected in_flight)
       = effects in_flight @ [TypingSet False]
   \<and> \<not> isTyping (sendMessage_resume no_parser (js ''t2'') (HttpResponse 200 (Some JNull)) in_flight)
   \<and> effects (sendMessage_resume no_parser (js ''t2'') (HttpResponse 200 (Some JNull)) in_flight)
       = effects in_flight @ [TypingSet False, TypingSet False]"
  using in_flight_eq
    guard_released [OF in_flight_eq, of "js ''t2''" FetchRejected in_flight]
    guard_released [OF in_flight_eq, of "js ''t2''" "HttpResponse 200 (Some JNull)" in_flight]
  by (simp add: throws_after_reset_def response_ok_def)

text \<open>
  C2 as stated fails. The request of \<open>in_flight\<close> is answered with status 200
  and the body \<^verbatim>\<open>{"success": true}\<close>: the guard is assigned false twice.
\<close>

theorem guard_released_counterexample:
  "sendMessage_dispatch no_parser (js ''t0'') (js ''t1'') typed_hi = Awaiting in_flight
   \<and> effects in_flight = [TypingSet True, NetworkCall (RagChat (js ''hi'') (js ''t1''))]
   \<and> effects (sendMessage_resume no_parser (js ''t2'') (HttpResponse 200 (Some body_success_only))
                in_flight)
      = [TypingSet True, NetworkCall (RagChat (js ''hi'') (js ''t1'')), TypingSet False, TypingSet False]"
  by (simp add: in_flight_eq)
    (simp add: in_flight_state run_defs body_defs Let_def js_def)




text \<open>
  C4. When the text of the input is empty or consists of white space, when
  the guard is set, or when the mode is \<^verbatim>\<open>pdf\<close> and no file is staged,
  \<^verbatim>\<open>sendMessage\<close> returns at once: no request is issued, the guard is not
  touched, no bubble is added, and both threads and the staged files are as
  they were.
\<close>

theorem send_rejected_without_effect:
  assumes "list_all is_js_space (inputValue st) \<or> isTyping st
           \<or> (currentMode st = js ''pdf'' \<and> uploadedPDFs st = [])"
  shows "\<exists>st'. sendMessage_dispatch hostname now now' st = Returned st'
           \<and> effects st' = effects st \<and> chatNodes st' = chatNodes st
           \<and> historyMessages st' = historyMessages st \<and> pdfMessages st' = pdfMessages st
           \<and> uploadedPDFs st' = uploadedPDFs st"
proof (cases "trim (inputValue st) = [] \<or> isTyping st")
  case True
  then show ?thesis
    by (simp add: sendMessage_dispatch_def)
next
  case False
  with assms trim_spaces have "currentMode st = js ''pdf'' \<and> uploadedPDFs st = []"
    by blast
  with False show ?thesis
    by (simp add: sendMessage_dispatch_def showToast_def)
qed

theorem send_rejected_without_effect_witness:
  "list_all is_js_space (inputValue blank_input)
   \<and> (\<exists>st'. sendMessage_dispatch no_parser (js ''t0'') (js ''t1'') blank_input = Returned st'
           \<and> effects st' = effects blank_input \<and> chatNodes st' = chatNodes blank_input
           \<and> historyMessages st' = historyMessages blank_input
           \<and> pdfMessages st' = pdfMessages blank_input
           \<and> uploadedPDFs st' = uploadedPDFs blank_input)
   \<and> isTyping busy_again \<and> trim (inputValue busy_again) = js ''again''
   \<and> (\<exists>st'. sendMessage_dispatch no_parser (js ''t3'') (js ''t4'') busy_again = Returned st'
           \<and> effects st' = effects busy_again \<and> chatNodes st' = chatNodes busy_again
           \<and> historyMessages st' = historyMessages busy_again
           \<and> pdfMessages st' = pdfMessages busy_again
           \<and> uploadedPDFs st' = uploadedPDFs busy_again)
   \<and> currentMode pdf_no_docs = js ''pdf'' \<and> uploadedPDFs pdf_no_docs = []
   \<and> trim (inputValue pdf_no_docs) = js ''hi'' \<and> \<not> isTyping pdf_no_docs
   \<and> (\<exists>st'. sendMessage_dispatch no_parser (js ''t0'') (js ''t1'') pdf_no_docs = Returned st'
           \<and> effects st' = effects pdf_no_docs \<and> chatNodes st' = chatNodes pdf_no_docs
           \<and> historyMessages st' = historyMessages pdf_no_docs
           \<and> pdfMessages st' = pdfMessages pdf_no_docs
           \<and> uploadedPDFs st' = uploadedPDFs pdf_no_docs)"
proof -
  have blank: "list_all is_js_space (inputValue blank_input)"
    by (simp add: blank_input_def js_def is_js_space_def)
  have busy: "isTyping busy_again"
    by (simp add: busy_again_def in_flight_state)
  have busy_text: "trim (inputValue busy_again) = js ''again''"
    by (simp add: busy_again_def trim_def is_js_space_def js_def)
  have nodocs: "currentMode pdf_no_docs = js ''pdf'' \<and> uploadedPDFs pdf_no_docs = []"
    by (simp add: pdf_no_docs_def initial_def run_defs Let_def js_def)
  have nodocs_text: "trim (inputValue pdf_no_docs) = js ''hi'' \<and> \<not> isTyping pdf_no_docs"
    by (simp add: pdf_no_docs_def initial_def run_defs Let_def trim_def is_js_space_def js_def)
  have h1: "list_all is_js_space (inputValue blank_input) \<or> isTyping blank_input
           \<or> (currentMode blank_input = js ''pdf'' \<and> uploadedPDFs blank_input = [])"
    using blank by simp
  have h2: "list_all is_js_space (inputValue busy_again) \<or> isTyping busy_again
           \<or> (currentMode busy_again = js ''pdf'' \<and> uploadedPDFs busy_again = [])"
    using busy by simp
  have h3: "list_all is_js_space (inputValue pdf_no_docs) \<or> isTyping pdf_no_docs
           \<or> (currentMode pdf_no_docs = js ''pdf'' \<and> uploadedPDFs pdf_no_docs = [])"
    using nodocs by simp
  from blank busy busy_text nodocs nodocs_text
    send_rejected_without_effect [OF h1, of no_parser "js ''t0''" "js ''t1''"]
    send_rejected_without_effect [OF h2, of no_parser "js ''t3''" "js ''t4''"]
    send_rejected_without_effect [OF h3, of no_parser "js ''t0''" "js ''t1''"]
  show ?thesis
    by blast
qed

section \<open>The staged files\<close>

lemma stage_file_keys:
  "staged_keys (stage_file candidate st) = staged_keys st
   \<or> (staged_keys (stage_file candidate st)
         = staged_keys st @ [(file_name (fst candidate), file_size (fst candidate))]
       \<and> (file_name (fst candidate), file_size (fst candidate)) \<notin> set (staged_keys st))"
proof (cases "find (\<lambda>pdf. pdf_name pdf = file_name (fst candidate) \<and> pdf_size pdf = file_size (fst candidate))
                   (uploadedPDFs st)")
  case None
  then have "(file_name (fst candidate), file_size (fst candidate)) \<notin> set (staged_keys st)"
    by (auto simp: find_None_iff staged_keys_def staged_key_def)
  then show ?thesis
    by (simp add: stage_file_def showToast_def staged_keys_def staged_key_def Let_def)
next
  case (Some a)
  then show ?thesis
    by (simp add: stage_file_def showToast_def staged_keys_def Let_def)
qed

lemma stage_file_distinct:
  "distinct (staged_keys st) \<Longrightarrow> distinct (staged_keys (stage_file candidate st))"
  using stage_file_keys [of candidate st] by auto

lemma handleFileSelect_distinct:
  "distinct (staged_keys st) \<Longrightarrow> distinct (staged_keys (handleFileSelect files st))"
  unfolding handleFileSelect_def
  by (induction files arbitrary: st) (simp_all add: stage_file_distinct)

lemma handleDrop_distinct:
  assumes "distinct (staged_keys st)"
  shows "distinct (staged_keys (handleDrop files st))"
proof -
  have "staged_keys (showToast msg_only_pdf ToastError st) = staged_keys st"
    by (simp add: staged_keys_def showToast_def)
  with assms show ?thesis
    by (simp add: handleDrop_def Let_def handleFileSelect_distinct)
qed

lemma distinct_delete_at:
  assumes "distinct xs"
  shows "distinct (take i xs @ drop (Suc i) xs)"
proof -
  have "set (take i xs) \<inter> set (drop (Suc i) xs) = {}"
    using assms set_take_disj_set_drop_if_distinct [of xs i "Suc i"] by simp
  with assms show ?thesis by simp
qed

lemma removePDFFile_distinct:
  "distinct (staged_keys st) \<Longrightarrow> distinct (staged_keys (removePDFFile fileId st))"
  by (auto simp: removePDFFile_def staged_keys_def showToast_def Let_def take_map [symmetric]
      drop_map [symmetric] distinct_delete_at simp del: distinct_append split: option.splits)

lemma clear_distinct:
  "distinct (staged_keys (confirmAction (clearPDFChat st)))"
  by (simp add: staged_keys_def confirmAction_def clearPDFChat_def showConfirmation_def
      hideConfirmation_def closeMenus_def showToast_def Let_def)

lemma upload_step_distinct:
  "distinct (staged_keys st) \<Longrightarrow> distinct (staged_keys (upload_step op st))"
  by (cases op)
    (simp_all add: handleFileSelect_distinct handleDrop_distinct removePDFFile_distinct clear_distinct)

lemma upload_run_distinct:
  "distinct (staged_keys st) \<Longrightarrow> distinct (staged_keys (upload_run ops st))"
  unfolding upload_run_def
  by (induction ops arbitrary: st) (simp_all add: upload_step_distinct)

lemma stage_file_duplicate:
  assumes "(file_name f, file_size f) \<in> set (staged_keys st)"
  shows "uploadedPDFs (stage_file (f, i) st) = uploadedPDFs st"
proof -
  from assms obtain pdf where "pdf \<in> set (uploadedPDFs st)"
    and "pdf_name pdf = file_name f" and "pdf_size pdf = file_size f"
    by (auto simp: staged_keys_def staged_key_def)
  then have "find (\<lambda>pdf. pdf_name pdf = file_name f \<and> pdf_size pdf = file_size f) (uploadedPDFs st) \<noteq> None"
    by (auto simp: find_None_iff)
  then show ?thesis
    by (simp add: stage_file_def showToast_def Let_def)
qed

lemma stage_file_keeps:
  "k \<in> set (staged_keys st) \<Longrightarrow> k \<in> set (staged_keys (stage_file candidate st))"
  using stage_file_keys [of candidate st] by auto

lemma stage_file_accepts:
  assumes "file_type f = js ''application/pdf''" and "file_size f \<le> 10 * 1024 * 1024"
  shows "(file_name f, file_size f) \<in> set (staged_keys (stage_file (f, i) st))"
proof (cases "(file_name f, file_size f) \<in> set (staged_keys st)")
  case True
  then show ?thesis by (rule stage_file_keeps)
next
  case False
  then have "find (\<lambda>pdf. pdf_name pdf = file_name f \<and> pdf_size pdf = file_size f) (uploadedPDFs st) = None"
    by (force simp: find_None_iff staged_keys_def staged_key_def)
  with assms show ?thesis
    by (simp add: stage_file_def showToast_def staged_keys_def staged_key_def Let_def)
qed

lemma handleFileSelect_keeps:
  "k \<in> set (staged_keys st) \<Longrightarrow> k \<in> set (staged_keys (handleFileSelect files st))"
  unfolding handleFileSelect_def
  by (induction files arbitrary: st) (simp_all add: stage_file_keeps)

lemma handleFileSelect_accepts:
  assumes "(f, i) \<in> set files" and "file_type f = js ''application/pdf''"
    and "file_size f \<le> 10 * 1024 * 1024"
  shows "(file_name f, file_size f) \<in> set (staged_keys (handleFileSelect files st))"
  using assms(1)
proof (induction files arbitrary: st)
  case Nil
  then show ?case by simp
next
  case (Cons c cs)
  show ?case
  proof (cases "c = (f, i)")
    case True
    have "(file_name f, file_size f) \<in> set (staged_keys (stage_file (f, i) st))"
      using assms(2,3) by (rule stage_file_accepts)
    then have "(file_name f, file_size f) \<in> set (staged_keys (handleFileSelect cs (stage_file (f, i) st)))"
      by (rule handleFileSelect_keeps)
    with True show ?thesis by (simp add: handleFileSelect_def)
  next
    case False
    with Cons.prems have "(f, i) \<in> set cs" by simp
    then have "(file_name f, file_size f) \<in> set (staged_keys (handleFileSelect cs (stage_file c st)))"
      by (rule Cons.IH)
    then show ?thesis by (simp add: handleFileSelect_def)
  qed
qed

lemma staged_report_state:
  "uploadedPDFs staged_report
     = [\<lparr>pdf_name = js ''report.pdf'', pdf_size = 2048, pdf_file = report_pdf, pdf_id = 1\<rparr>]"
  by (simp add: staged_report_def handleFileSelect_def stage_file_def showToast_def initial_def
      report_pdf_def Let_def)

text \<open>
  C5. After any run of additions (batches of candidates, selected or dropped),
  removals and clearings from the loaded page, and from any state whose staged files have
  distinct keys, no two staged files have the same (name, size). A candidate
  whose key is staged already leaves the staged files as they are. And every
  candidate of a batch that is a PDF of at most 10 MB has its key staged after
  the batch, whatever became of the other candidates.
\<close>

theorem upload_set_unique:
  "distinct (staged_keys (upload_run ops initial))
   \<and> (distinct (staged_keys st) \<longrightarrow> distinct (staged_keys (upload_run ops st)))
   \<and> ((file_name f, file_size f) \<in> set (staged_keys st) \<longrightarrow>
        uploadedPDFs (handleFileSelect [(f, i)] st) = uploadedPDFs st)
   \<and> ((g, j) \<in> set files \<and> file_type g = js ''application/pdf'' \<and> file_size g \<le> 10 * 1024 * 1024 \<longrightarrow>
        (file_name g, file_size g) \<in> set (staged_keys (handleFileSelect files st)))"
proof -
  have "distinct (staged_keys initial)"
    by (simp add: staged_keys_def initial_def)
  then have "distinct (staged_keys (upload_run ops initial))"
    by (rule upload_run_distinct)
  moreover have "(file_name f, file_size f) \<in> set (staged_keys st) \<longrightarrow>
        uploadedPDFs (handleFileSelect [(f, i)] st) = uploadedPDFs st"
    by (simp add: handleFileSelect_def stage_file_duplicate)
  ultimately show ?thesis
    using upload_run_distinct handleFileSelect_accepts by blast
qed

text \<open>
  The theorem with \<^verbatim>\<open>report.pdf\<close> staged: the same file offered again is not
  stored a second time, and in the batch of \<^verbatim>\<open>notes.txt\<close>, \<^verbatim>\<open>report.pdf\<close>
  and \<^verbatim>\<open>scan.pdf\<close> the two rejections do not keep \<^verbatim>\<open>scan.pdf\<close> out.
\<close>

theorem upload_set_unique_witness:
  "distinct (staged_keys staged_report)
   \<and> distinct (staged_keys (upload_run
        [Add [(notes_txt, 2), (report_pdf, 3), (scan_pdf, 4)], Remove 1, Drop [(report_pdf, 5)], Clear]
        staged_report))
   \<and> (file_name report_pdf, file_size report_pdf) \<in> set (staged_keys staged_report)
   \<and> uploadedPDFs (handleFileSelect [(report_pdf, 3)] staged_report) = uploadedPDFs staged_report
   \<and> (scan_pdf, 4 :: rat) \<in> set [(notes_txt, 2), (report_pdf, 3), (scan_pdf, 4)]
   \<and> file_type scan_pdf = js ''application/pdf'' \<and> file_size scan_pdf \<le> 10 * 1024 * 1024
   \<and> (file_name scan_pdf, file_size scan_pdf)
       \<in> set (staged_keys (handleFileSelect [(notes_txt, 2), (report_pdf, 3), (scan_pdf, 4)] staged_report))"
proof -
  have d: "distinct (staged_keys staged_report)"
    by (simp add: staged_keys_def staged_report_state)
  have k: "(file_name report_pdf, file_size report_pdf) \<in> set (staged_keys staged_report)"
    by (simp add: staged_keys_def staged_key_def staged_report_state report_pdf_def)
  have m: "(scan_pdf, 4 :: rat) \<in> set [(notes_txt, 2), (report_pdf, 3), (scan_pdf, 4)]"
    by simp
  have t1: "file_type scan_pdf = js ''application/pdf''"
    by (simp add: scan_pdf_def)
  have t2: "file_size scan_pdf \<le> 10 * 1024 * 1024"
    by (simp add: scan_pdf_def)
  note u = upload_set_unique [of
      "[Add [(notes_txt, 2), (report_pdf, 3), (scan_pdf, 4)], Remove 1, Drop [(report_pdf, 5)], Clear]"
      staged_report report_pdf 3 scan_pdf 4 "[(notes_txt, 2), (report_pdf, 3), (scan_pdf, 4)]"]
  have run: "distinct (staged_keys (upload_run
        [Add [(notes_txt, 2), (report_pdf, 3), (scan_pdf, 4)], Remove 1, Drop [(report_pdf, 5)], Clear]
        staged_report))"
    using u [THEN conjunct2, THEN conjunct1] d by (rule mp)
  have dup: "uploadedPDFs (handleFileSelect [(report_pdf, 3)] staged_report) = uploadedPDFs staged_report"
    using u [THEN conjunct2, THEN conjunct2, THEN conjunct1] k by (rule mp)
  have acc: "(file_name scan_pdf, file_size scan_pdf)
       \<in> set (staged_keys (handleFileSelect [(notes_txt, 2), (report_pdf, 3), (scan_pdf, 4)] staged_report))"
    using u [THEN conjunct2, THEN conjunct2, THEN conjunct2] conjI [OF m conjI [OF t1 t2]] by (rule mp)
  show ?thesis
    by (intro conjI d run k dup m t1 t2 acc)
qed

section \<open>Switching the mode and clearing\<close>

text \<open>
  C6, as the code has it. With a mode that is neither \<^verbatim>\<open>history\<close> nor
  \<^verbatim>\<open>pdf\<close>, \<^verbatim>\<open>switchMode\<close> loads nothing: both threads, the staged files,
  the bubbles of the conversation and the two welcome panels are as they
  were. But the call is not without effect: \<^verbatim>\<open>currentMode\<close> is the given
  mode afterwards, no menu entry is marked active, and the menu is closed.
\<close>

theorem switchMode_unknown_mode:
  assumes "mode \<noteq> js ''history''" and "mode \<noteq> js ''pdf''"
  shows "switchMode hostname mode st
           = st\<lparr>currentMode := mode, activeMenuItem := None, menuOpen := False\<rparr>
         \<and> currentMode (switchMode hostname mode st) = mode
         \<and> historyMessages (switchMode hostname mode st) = historyMessages st
         \<and> pdfMessages (switchMode hostname mode st) = pdfMessages st
         \<and> uploadedPDFs (switchMode hostname mode st) = uploadedPDFs st
         \<and> chatNodes (switchMode hostname mode st) = chatNodes st
         \<and> historyWelcomeHidden (switchMode hostname mode st) = historyWelcomeHidden st
         \<and> pdfWelcomeHidden (switchMode hostname mode st) = pdfWelcomeHidden st"
  using assms by (simp add: switchMode_def closeMenus_def Let_def)

theorem switchMode_unknown_mode_witness:
  "js ''settings'' \<noteq> js ''history'' \<and> js ''settings'' \<noteq> js ''pdf''
   \<and> switchMode no_parser (js ''settings'') in_flight
       = in_flight\<lparr>currentMode := js ''settings'', activeMenuItem := None, menuOpen := False\<rparr>
   \<and> currentMode (switchMode no_parser (js ''settings'') in_flight) = js ''settings''
   \<and> historyMessages (switchMode no_parser (js ''settings'') in_flight) = historyMessages in_flight
   \<and> pdfMessages (switchMode no_parser (js ''settings'') in_flight) = pdfMessages in_flight
   \<and> uploadedPDFs (switchMode no_parser (js ''settings'') in_flight) = uploadedPDFs in_flight
   \<and> chatNodes (switchMode no_parser (js ''settings'') in_flight) = chatNodes in_flight
   \<and> historyWelcomeHidden (switchMode no_parser (js ''settings'') in_flight) = historyWelcomeHidden in_flight
   \<and> pdfWelcomeHidden (switchMode no_parser (js ''settings'') in_flight) = pdfWelcomeHidden in_flight"
proof -
  have a: "js ''settings'' \<noteq> js ''history''"
    by (simp add: js_def)
  have b: "js ''settings'' \<noteq> js ''pdf''"
    by (simp add: js_def)
  from a b switchMode_unknown_mode [OF a b, of no_parser in_flight] show ?thesis
    by simp
qed

text \<open>
  C6 as stated fails: on the loaded page, in history mode,
  \<^verbatim>\<open>switchMode('settings')\<close> changes \<^verbatim>\<open>currentMode\<close>.
\<close>

theorem switchMode_unknown_mode_counterexample:
  "js ''settings'' \<noteq> js ''history'' \<and> js ''settings'' \<noteq> js ''pdf''
   \<and> currentMode initial = js ''history''
   \<and> currentMode (switchMode no_parser (js ''settings'') initial) = js ''settings''
   \<and> currentMode (switchMode no_parser (js ''settings'') initial) \<noteq> currentMode initial"
  by (simp add: switchMode_def closeMenus_def initial_def Let_def)
    (simp add: js_def)

text \<open>
  C9. Confirming \<^verbatim>\<open>clearHistoryMode\<close> empties the history thread and
  leaves the pdf thread and the staged files as they are; confirming
  \<^verbatim>\<open>clearPDFChat\<close> empties the pdf thread and the staged files and leaves
  the history thread as it is.
\<close>

theorem clear_thread_frame:
  "historyMessages (confirmAction (clearHistoryMode st)) = []
   \<and> pdfMessages (confirmAction (clearHistoryMode st)) = pdfMessages st
   \<and> length (pdfMessages (confirmAction (clearHistoryMode st))) = length (pdfMessages st)
   \<and> uploadedPDFs (confirmAction (clearHistoryMode st)) = uploadedPDFs st
   \<and> pdfMessages (confirmAction (clearPDFChat st)) = []
   \<and> uploadedPDFs (confirmAction (clearPDFChat st)) = []
   \<and> historyMessages (confirmAction (clearPDFChat st)) = historyMessages st
   \<and> length (historyMessages (confirmAction (clearPDFChat st))) = length (historyMessages st)"
  by (simp add: confirmAction_def clearHistoryMode_def clearPDFChat_def showConfirmation_def
      hideConfirmation_def closeMenus_def showToast_def Let_def)

section \<open>Rendering\<close>

text \<open>
  C7. \<^verbatim>\<open>formatMessage\<close> resolves the bold markers, then the italic markers,
  then the newlines, and the text of the specification's example becomes a
  bold span, an italic span and a line break before \<^verbatim>\<open>line2\<close>. The order
  matters: with the italic markers resolved before the bold ones the same
  text has no bold span.
\<close>

theorem formatMessage_pipeline:
  "formatMessage txt = replace_newlines (replace_italic (replace_bold txt))
   \<and> formatMessage (js ''**bold** and *italic*'' @ [0x000A] @ js ''line2'')
       = js ''<strong>bold</strong> and <em>italic</em><br>line2''
   \<and> replace_newlines (replace_bold (replace_italic (js ''**bold** and *italic*'' @ [0x000A] @ js ''line2'')))
       = js ''<em></em>bold<em></em> and <em>italic</em><br>line2''"
  by (simp add: formatMessage_def replace_bold_def replace_italic_def replace_newlines_def
      js_def startsWith_def is_line_terminator_def)

text \<open>
  C8, at a URL whose host has \<^verbatim>\<open>www.\<close> behind its first label. The host is
  \<^verbatim>\<open>docs.www.example.com\<close>; it has no leading \<^verbatim>\<open>www.\<close>, so the label of
  the claim is the host itself, and the label the code derives is
  \<^verbatim>\<open>docs.example.com\<close>.
\<close>

theorem getDomainFromUrl_inner_www:
  "docs_parser (JStr (js ''https://docs.www.example.com/a'')) = Some (js ''docs.www.example.com'')
   \<and> getDomainFromUrl docs_parser (JStr (js ''https://docs.www.example.com/a'')) = js ''docs.example.com''
   \<and> spec_strip_leading_www (js ''docs.www.example.com'') = js ''docs.www.example.com''
   \<and> getDomainFromUrl docs_parser (JStr (js ''https://docs.www.example.com/a''))
       \<noteq> spec_strip_leading_www (js ''docs.www.example.com'')"
  by (simp add: getDomainFromUrl_def docs_parser_def spec_strip_leading_www_def js_def startsWith_def)

text \<open>What holds of the label: a fixed text when the URL does not parse, and a
  leading \<^verbatim>\<open>www.\<close> is stripped.\<close>

lemma getDomainFromUrl_unparsable:
  "hostname url = None \<Longrightarrow> getDomainFromUrl hostname url = label_placeholder"
  by (simp add: getDomainFromUrl_def)

lemma getDomainFromUrl_leading_www:
  "hostname url = Some (js ''www.'' @ rest) \<Longrightarrow> getDomainFromUrl hostname url = rest"
  by (simp add: getDomainFromUrl_def js_def startsWith_def)

text \<open>
  C10. A content without \<^verbatim>\<open>*\<close> and without a newline is returned by
  \<^verbatim>\<open>formatMessage\<close> as it is, and it is this text that \<^verbatim>\<open>addMessage\<close>
  puts into the bubble: nothing is escaped. (The one case in which
  \<^verbatim>\<open>addMessage\<close> appends no bubble is that of source URLs it cannot write.)
\<close>

theorem formatMessage_no_escaping:
  assumes "0x002A \<notin> set txt" and "0x000A \<notin> set txt"
  shows "formatMessage txt = txt
         \<and> (\<exists>refs. addMessage hostname txt sndr urls st
                       = (if references_throw sndr urls then Thrown st
                          else Normal (st\<lparr>chatNodes := chatNodes st
                                 @ [MessageNode (currentMode st) sndr txt refs]\<rparr>)))"
  using formatMessage_plain [OF assms] by (auto simp: addMessage_def Let_def)

theorem formatMessage_no_escaping_witness:
  "0x002A \<notin> set (js ''<img src=x onerror=alert(1)> & more'')
   \<and> 0x000A \<notin> set (js ''<img src=x onerror=alert(1)> & more'')
   \<and> formatMessage (js ''<img src=x onerror=alert(1)> & more'') = js ''<img src=x onerror=alert(1)> & more''
   \<and> \<not> references_throw Ai None
   \<and> (\<exists>refs. addMessage no_parser (js ''<img src=x onerror=alert(1)> & more'') Ai None initial
                 = Normal (initial\<lparr>chatNodes := chatNodes initial
                     @ [MessageNode (currentMode initial) Ai (js ''<img src=x onerror=alert(1)> & more'') refs]\<rparr>))"
proof -
  have a: "0x002A \<notin> set (js ''<img src=x onerror=alert(1)> & more'')"
    by (simp add: js_def)
  have b: "0x000A \<notin> set (js ''<img src=x onerror=alert(1)> & more'')"
    by (simp add: js_def)
  show ?thesis
    using a b formatMessage_no_escaping [OF a b, of no_parser Ai None initial] by simp
qed

end
